theory Spec2Isabelle
  imports Complex_Main
begin

section \<open>Data model of the App component (src/index.tsx)\<close>

text \<open>
  JavaScript numbers are modelled as reals: every coordinate, size and ratio is a finite
  value and arithmetic is exact. The source never raises on a division; where a divisor
  can be zero the source yields Infinity or NaN, which the reals do not have, so the
  theorems about a quotient state that its divisor is positive. Integer-valued DOM
  attributes (image sizes in pixels) are naturals, and \<open>Date.now()\<close> is an integer.

  A value of type \<open>string | null\<close> is a \<open>string option\<close>. The field names of the source
  are kept; \<open>id\<close>, \<open>x\<close>, \<open>y\<close>, \<open>type\<close>, \<open>left\<close> and \<open>top\<close> carry a suffix because the plain
  names are HOL constants or would capture variables.
\<close>

type_synonym number = real

record Product =
  id_P :: int
  src :: string
  x_P :: number
  y_P :: number
  width :: number
  height :: number
  aspectRatio :: number
  description :: string

text \<open>An entry of \<open>availableProducts\<close>: \<open>{ src: string; description: string }\<close>.\<close>

record Available =
  src_A :: string
  description_A :: string

text \<open>The value of \<open>previousState\<close>: \<open>{ displayImage; placedProducts }\<close>.\<close>

record Previous =
  displayImage_S :: "string option"
  placedProducts_S :: "Product list"

datatype InteractionType = Move | Resize

text \<open>The object held by the \<open>interactionState\<close> ref while a gesture is active.\<close>

record Interaction =
  type_I :: "InteractionType option"
  productId :: int
  startX :: number
  startY :: number
  startLeft :: number
  startTop :: number
  startWidth :: number
  startHeight :: number

text \<open>
  The state of the component: one field per \<open>useState\<close> hook, and the \<open>interactionState\<close>
  ref, which lives as long as the component does.
\<close>

record App =
  originalRoomImage :: "string option"
  displayImage :: "string option"
  availableProducts :: "Available list"
  placedProducts :: "Product list"
  selectedProductId :: "int option"
  isLoading :: bool
  isProcessingProducts :: bool
  loadingMessage :: string
  error :: "string option"
  previousState :: "Previous option"
  userInstructions :: string
  interactionState :: "Interaction option"

definition loadingMessages :: "string list" where
  "loadingMessages =
     [''Harmonizing your design...'',
      ''Adjusting lighting and shadows...'',
      ''Blending colors for a natural look...'',
      ''Analyzing perspective...'',
      ''Adding the finishing touches...'']"

text \<open>The state after the first render: the initial values given to the hooks.\<close>

definition initialApp :: App where
  "initialApp =
     \<lparr> originalRoomImage = None, displayImage = None, availableProducts = [],
       placedProducts = [], selectedProductId = None, isLoading = False,
       isProcessingProducts = False, loadingMessage = loadingMessages ! 0, error = None,
       previousState = None, userInstructions = [], interactionState = None \<rparr>"

text \<open>
  JavaScript truthiness of a \<open>string | null\<close> value, as tested by \<open>!displayImage\<close> and
  \<open>src &&\<close>: null and the empty string are falsy.
\<close>

definition truthy :: "string option \<Rightarrow> bool" where
  "truthy v = (case v of None \<Rightarrow> False | Some t \<Rightarrow> t \<noteq> [])"

section \<open>Events\<close>

text \<open>The fields of a mouse event that the handlers read.\<close>

record MouseEvent =
  clientX :: number
  clientY :: number

text \<open>The part of \<open>getBoundingClientRect()\<close> that \<open>handleDrop\<close> reads.\<close>

record DOMRect =
  left_R :: number
  top_R :: number

text \<open>
  A drop, together with what the environment answers while it is handled:
  \<^item> \<open>data\<close>: the payload of \<open>getData("application/json")\<close>, already parsed; \<open>None\<close> is the
    empty string (no payload). Payloads are the objects \<open>handleDragStart\<close> writes.
  \<^item> \<open>workspaceRect\<close>: \<open>None\<close> when \<open>workspaceRef.current\<close> is not set.
  \<^item> \<open>loaded\<close>: \<open>img.width\<close> and \<open>img.height\<close> when \<open>onload\<close> fires, \<open>None\<close> when it never
    does.
  \<^item> \<open>now\<close>: the value of \<open>Date.now()\<close> inside \<open>onload\<close>.
\<close>

record DropEvent = MouseEvent +
  data :: "Available option"
  workspaceRect :: "DOMRect option"
  loaded :: "(nat \<times> nat) option"
  now :: int

section \<open>Placement handlers\<close>

text \<open>
  \<open>handleDrop\<close> (lines 131-158) with the \<open>onload\<close> callback it installs: the placement is
  appended and selected when the image has loaded.
\<close>

definition newProduct :: "DropEvent \<Rightarrow> Available \<Rightarrow> DOMRect \<Rightarrow> nat \<times> nat \<Rightarrow> Product" where
  "newProduct e d rect img =
     (let ratio = real (fst img) / real (snd img) in
      \<lparr> id_P = now e,
        src = src_A d,
        x_P = clientX e - left_R rect - 75,
        y_P = clientY e - top_R rect - (75 / ratio) / 2,
        width = 150,
        height = 150 / ratio,
        aspectRatio = ratio,
        description = description_A d \<rparr>)"

definition handleDrop :: "DropEvent \<Rightarrow> App \<Rightarrow> App" where
  "handleDrop e s =
     (case data e of
        None \<Rightarrow> s
      | Some d \<Rightarrow>
          (case workspaceRect e of
             None \<Rightarrow> s
           | Some rect \<Rightarrow>
               if src_A d \<noteq> [] then
                 (case loaded e of
                    None \<Rightarrow> s
                  | Some img \<Rightarrow>
                      let p = newProduct e d rect img in
                      s\<lparr> placedProducts := placedProducts s @ [p],
                         selectedProductId := Some (id_P p) \<rparr>)
               else s))"

text \<open>
  \<open>handleMouseDown\<close> (lines 160-179). \<open>workspaceSet\<close> says whether \<open>workspaceRef.current\<close>
  is set; \<open>find\<close> returns the first placement with the id.
\<close>

definition handleMouseDown ::
  "MouseEvent \<Rightarrow> bool \<Rightarrow> int \<Rightarrow> InteractionType \<Rightarrow> App \<Rightarrow> App" where
  "handleMouseDown e workspaceSet pid ty s =
     (let s1 = s\<lparr> selectedProductId := Some pid \<rparr> in
      case List.find (\<lambda>p. id_P p = pid) (placedProducts s) of
        None \<Rightarrow> s1
      | Some product \<Rightarrow>
          if \<not> workspaceSet then s1
          else s1\<lparr> interactionState := Some
                 \<lparr> type_I = Some ty, productId = pid,
                   startX = clientX e, startY = clientY e,
                   startLeft = x_P product, startTop = y_P product,
                   startWidth = width product, startHeight = height product \<rparr> \<rparr>)"

text \<open>
  The function mapped over the placements by \<open>handleMouseMove\<close> (lines 188-200), for the
  gesture \<open>i\<close> and the deltas \<open>dx\<close>, \<open>dy\<close>.
\<close>

definition dragProduct :: "Interaction \<Rightarrow> number \<Rightarrow> number \<Rightarrow> Product \<Rightarrow> Product" where
  "dragProduct i dx dy p =
     (if id_P p = productId i then
        (if type_I i = Some Move then
           p\<lparr> x_P := startLeft i + dx, y_P := startTop i + dy \<rparr>
         else if type_I i = Some Resize then
           (let newWidth = startWidth i + dx;
                newHeight = newWidth / aspectRatio p
            in p\<lparr> width := (if newWidth > 20 then newWidth else 20),
                  height := (if newHeight > 20 / aspectRatio p then newHeight
                             else 20 / aspectRatio p) \<rparr>)
         else p)
      else p)"

definition handleMouseMove :: "MouseEvent \<Rightarrow> App \<Rightarrow> App" where
  "handleMouseMove e s =
     (case interactionState s of
        None \<Rightarrow> s
      | Some i \<Rightarrow>
          let dx = clientX e - startX i;
              dy = clientY e - startY i
          in s\<lparr> placedProducts := map (dragProduct i dx dy) (placedProducts s) \<rparr>)"

definition handleMouseUp :: "App \<Rightarrow> App" where
  "handleMouseUp s = s\<lparr> interactionState := None \<rparr>"

definition handleWorkspaceClick :: "App \<Rightarrow> App" where
  "handleWorkspaceClick s = s\<lparr> selectedProductId := None \<rparr>"

section \<open>Room upload, reset and undo\<close>

text \<open>
  \<open>handleRoomUpload\<close> (lines 85-89). \<open>urls[0]\<close> of an empty array is undefined, which the
  state holds like null.
\<close>

definition first_url :: "string list \<Rightarrow> string option" where
  "first_url urls = (case urls of [] \<Rightarrow> None | u # _ \<Rightarrow> Some u)"

definition handleRoomUpload :: "string list \<Rightarrow> App \<Rightarrow> App" where
  "handleRoomUpload urls s =
     s\<lparr> originalRoomImage := first_url urls,
        displayImage := first_url urls,
        placedProducts := [] \<rparr>"

definition handleReset :: "App \<Rightarrow> App" where
  "handleReset s =
     s\<lparr> displayImage := originalRoomImage s,
        placedProducts := [],
        error := None,
        previousState := None \<rparr>"

definition handleUndo :: "App \<Rightarrow> App" where
  "handleUndo s =
     (case previousState s of
        Some prev \<Rightarrow>
          s\<lparr> displayImage := displayImage_S prev,
             placedProducts := placedProducts_S prev,
             previousState := None \<rparr>
      | None \<Rightarrow> s)"

text \<open>
  The conditions under which the footer renders its buttons (lines 458-463):
  Undo is rendered when \<open>previousState && placedProducts.length === 0 && !isLoading\<close>,
  Harmonize when \<open>placedProducts.length > 0\<close>, and Harmonize is disabled while loading.
\<close>

definition undoOffered :: "App \<Rightarrow> bool" where
  "undoOffered s \<longleftrightarrow>
     previousState s \<noteq> None \<and> length (placedProducts s) = 0 \<and> \<not> isLoading s"

definition harmonizeOffered :: "App \<Rightarrow> bool" where
  "harmonizeOffered s \<longleftrightarrow> length (placedProducts s) > 0"

definition harmonizeEnabled :: "App \<Rightarrow> bool" where
  "harmonizeEnabled s \<longleftrightarrow> \<not> isLoading s"

section \<open>Strings\<close>

text \<open>
  A string is a list of characters, one per code unit; the model covers code units below
  256, which is what data URLs and base64 text consist of.

  \<open>s.split(c)\<close> for a one-character separator: the pieces between the separators, at
  least one piece.
\<close>

fun split :: "char \<Rightarrow> string \<Rightarrow> string list" where
  "split c [] = [[]]"
| "split c (a # as) =
     (if a = c then [] # split c as
      else (case split c as of
              w # ws \<Rightarrow> (a # w) # ws
            | [] \<Rightarrow> [[a]]))"

text \<open>\<open>xs[1]\<close>: undefined when the array has fewer than two elements.\<close>

definition index1 :: "'a list \<Rightarrow> 'a option" where
  "index1 xs = (case xs of _ # b # _ \<Rightarrow> Some b | _ \<Rightarrow> None)"

text \<open>
  \<open>url.match(/:(.*?);/)?.[1]\<close>: the text between the leftmost colon that is followed, on
  the same line, by a semicolon, and the first semicolon after it. The dot of a regular
  expression does not match a line terminator.
\<close>

definition lineTerminator :: "char \<Rightarrow> bool" where
  "lineTerminator c \<longleftrightarrow> c = CHR 0x0A \<or> c = CHR 0x0D"

fun lazyUntilSemicolon :: "string \<Rightarrow> string option" where
  "lazyUntilSemicolon [] = None"
| "lazyUntilSemicolon (c # cs) =
     (if c = CHR '';'' then Some []
      else if lineTerminator c then None
      else map_option ((#) c) (lazyUntilSemicolon cs))"

fun matchMimeType :: "string \<Rightarrow> string option" where
  "matchMimeType [] = None"
| "matchMimeType (c # cs) =
     (if c = CHR '':'' then
        (case lazyUntilSemicolon cs of
           Some m \<Rightarrow> Some m
         | None \<Rightarrow> matchMimeType cs)
      else matchMimeType cs)"

text \<open>\<open>s.trim()\<close>: white space and line terminators are removed at both ends.\<close>

definition whiteSpace :: "char \<Rightarrow> bool" where
  "whiteSpace c \<longleftrightarrow>
     c \<in> {CHR 0x09, CHR 0x0A, CHR 0x0B, CHR 0x0C, CHR 0x0D, CHR 0x20, CHR 0xA0}"

definition trim :: "string \<Rightarrow> string" where
  "trim t = rev (dropWhile whiteSpace (rev (dropWhile whiteSpace t)))"

text \<open>\<open>xs.join(sep)\<close> on an array of strings.\<close>

fun join :: "string \<Rightarrow> string list \<Rightarrow> string" where
  "join sep [] = []"
| "join sep [a] = a"
| "join sep (a # b # cs) = a @ sep @ join sep (b # cs)"

text \<open>An optional string inside a template literal: undefined prints as its name.\<close>

definition template :: "string option \<Rightarrow> string" where
  "template v = (case v of None \<Rightarrow> ''undefined'' | Some t \<Rightarrow> t)"

section \<open>Promises\<close>

text \<open>
  A promise that has settled. The model has no promise that stays pending: a handler that
  awaits is described by the state it leaves when its promises have settled.
  \<open>Promise.all\<close> rejects when one of its promises rejects, and otherwise fulfils with the
  values in the order of the promises.
\<close>

datatype 'a Settled = Rejected | Fulfilled 'a

fun promiseAll :: "'a Settled list \<Rightarrow> 'a list Settled" where
  "promiseAll [] = Fulfilled []"
| "promiseAll (Rejected # ps) = Rejected"
| "promiseAll (Fulfilled v # ps) =
     (case promiseAll ps of
        Rejected \<Rightarrow> Rejected
      | Fulfilled vs \<Rightarrow> Fulfilled (v # vs))"

section \<open>Product upload\<close>

text \<open>
  The description service answers a request for \<open>(base64Data, mimeType)\<close> by rejecting or
  by a response whose \<open>text\<close> is a string or undefined. \<open>describeProduct\<close> is the
  asynchronous function mapped over the urls (lines 96-116); reading \<open>text.trim()\<close> of an
  undefined \<open>text\<close> throws, which rejects the promise like a failed request.
\<close>

type_synonym DescriptionService = "string \<Rightarrow> string \<Rightarrow> string option Settled"

definition describeProduct :: "DescriptionService \<Rightarrow> string \<Rightarrow> Available Settled" where
  "describeProduct service url =
     (let base64Data = index1 (split CHR '','' url);
          mimeType = matchMimeType url
      in if \<not> truthy base64Data \<or> \<not> truthy mimeType then
           Fulfilled \<lparr> src_A = url, description_A = ''a product'' \<rparr>
         else
           (case service (the base64Data) (the mimeType) of
              Rejected \<Rightarrow> Rejected
            | Fulfilled None \<Rightarrow> Rejected
            | Fulfilled (Some text) \<Rightarrow>
                Fulfilled \<lparr> src_A = url, description_A = trim text \<rparr>))"

text \<open>\<open>handleProductUpload\<close> (lines 91-125).\<close>

definition handleProductUpload :: "DescriptionService \<Rightarrow> string list \<Rightarrow> App \<Rightarrow> App" where
  "handleProductUpload service urls s =
     (let s1 = s\<lparr> isProcessingProducts := True, error := None \<rparr> in
      case promiseAll (map (describeProduct service) urls) of
        Fulfilled newProducts \<Rightarrow>
          s1\<lparr> availableProducts := availableProducts s1 @ newProducts,
              isProcessingProducts := False \<rparr>
      | Rejected \<Rightarrow>
          s1\<lparr> error := Some ''Could not generate product descriptions. Please try again.'',
              isProcessingProducts := False \<rparr>)"

section \<open>Harmonize\<close>

text \<open>
  The room image element behind \<open>imageRef\<close>, with the four sizes \<open>handleHarmonize\<close> reads.
\<close>

record RoomImage =
  naturalWidth :: nat
  naturalHeight :: nat
  clientWidth :: nat
  clientHeight :: nat

text \<open>
  The canvas is the sequence of \<open>drawImage\<close> calls made on its context, oldest first: a
  call paints over what the calls before it have put in the same place. An image is the
  room image element or a loaded product image, named by its \<open>src\<close>.
\<close>

datatype CanvasImage = BaseImage | ProductImage string

datatype DrawCall = DrawImage CanvasImage number number number number

record Canvas =
  width_C :: nat
  height_C :: nat
  calls :: "DrawCall list"

text \<open>The request sent to \<open>generateContent\<close> and the part of the response that is read.\<close>

record Request =
  model :: string
  imageData :: "string option"
  promptText :: string

record InlineData =
  data_D :: "string option"
  mimeType_D :: "string option"

record Part =
  inlineData :: "InlineData option"

record Content =
  parts :: "Part list option"

record Candidate =
  content :: "Content option"

record Response =
  candidates :: "Candidate list option"

text \<open>
  What the environment answers during one call of \<open>handleHarmonize\<close>:
  \<^item> \<open>ctxAvailable\<close>: \<open>canvas.getContext('2d')\<close> is not null;
  \<^item> \<open>imageRef\<close>: \<open>imageRef.current\<close>;
  \<^item> \<open>imageLoads\<close>: whether the image with a given \<open>src\<close> fires \<open>onload\<close> (or \<open>onerror\<close>);
  \<^item> \<open>toDataURL\<close>: the encoding of a canvas;
  \<^item> \<open>generateContent\<close>: the answer of the generation service to a request.
\<close>

record HarmonizeEnv =
  ctxAvailable :: bool
  imageRef :: "RoomImage option"
  imageLoads :: "string \<Rightarrow> bool"
  toDataURL :: "Canvas \<Rightarrow> string"
  generateContent :: "Request \<Rightarrow> Response Settled"

text \<open>Whatever is thrown inside the \<open>try\<close> block ends in the same \<open>catch\<close>.\<close>

datatype Thrown =
    CouldNotProcessImage
  | ImageLoadError
  | RequestFailed
  | TypeError
  | NoImageReturned

text \<open>
  Lines 249-280: the canvas of natural size with the room image and then the placements.
  \<open>forEach\<close> visits the loaded images by ascending index and reads the placement of the
  same index.
\<close>

definition loadProductImage :: "HarmonizeEnv \<Rightarrow> Product \<Rightarrow> CanvasImage Settled" where
  "loadProductImage env product =
     (if imageLoads env (src product) then Fulfilled (ProductImage (src product))
      else Rejected)"

definition drawProduct ::
  "number \<Rightarrow> number \<Rightarrow> CanvasImage \<Rightarrow> Product \<Rightarrow> DrawCall" where
  "drawProduct scaleX scaleY productImg product =
     DrawImage productImg (x_P product * scaleX) (y_P product * scaleY)
       (width product * scaleX) (height product * scaleY)"

definition buildComposite :: "HarmonizeEnv \<Rightarrow> Product list \<Rightarrow> Thrown + Canvas" where
  "buildComposite env products =
     (if \<not> ctxAvailable env \<or> imageRef env = None then Inl CouldNotProcessImage
      else
        let baseImage = the (imageRef env);
            canvas = \<lparr> width_C = naturalWidth baseImage, height_C = naturalHeight baseImage,
                       calls = [DrawImage BaseImage 0 0 (real (naturalWidth baseImage))
                                  (real (naturalHeight baseImage))] \<rparr>;
            scaleX = real (naturalWidth baseImage) / real (clientWidth baseImage);
            scaleY = real (naturalHeight baseImage) / real (clientHeight baseImage)
        in case promiseAll (map (loadProductImage env) products) of
             Rejected \<Rightarrow> Inl ImageLoadError
           | Fulfilled loadedProductImages \<Rightarrow>
               Inr (canvas\<lparr> calls := calls canvas @
                      map (\<lambda>index. drawProduct scaleX scaleY
                                     (loadedProductImages ! index) (products ! index))
                          [0 ..< length loadedProductImages] \<rparr>))"

text \<open>Lines 284-292: the instruction text.\<close>

definition buildPrompt :: "Product list \<Rightarrow> string \<Rightarrow> string" where
  "buildPrompt products instructions =
     (let productDescriptions = join '', '' (map description products);
          prompt0 = ''Your task is to seamlessly integrate the following product(s) into the provided room image: ''
            @ productDescriptions
            @ ''. Your main goal is to make the products look natural by adjusting lighting, shadows, and colors. Preserve all other details of the original image. Do not add any products that the user did not place.''
      in if trim instructions \<noteq> [] then
           prompt0 @ [CHR 0x0A, CHR 0x0A] @ ''IMPORTANT USER INSTRUCTIONS: '' @ [CHR 0x22]
             @ trim instructions @ [CHR 0x22]
             @ ''. You MUST follow these instructions. This may require you to change the orientation or perspective of the product(s) significantly. For example, if the user asks to make a sofa flush against the back wall, you must rotate it to face forward and align its perspective with that wall. The size and general position provided by the user should be respected as much as possible while fulfilling the instruction.''
         else
           prompt0 @ [CHR 0x0A, CHR 0x0A]
             @ ''It is absolutely critical that you DO NOT change the size, position, or aspect ratio of the added product(s). The products are placed exactly where the user wants them. Your only job is to adjust lighting, shadows, and colors to make the products look like they naturally belong in the room. You may only make very subtle adjustments to the perspective to better align the product with the scene if necessary.'')"

text \<open>
  Line 307: \<open>response.candidates?.[0]?.content?.parts.find(p => p.inlineData)\<close>. The chain
  is undefined when \<open>candidates\<close>, its first element or \<open>content\<close> is missing; a missing
  \<open>parts\<close> is not guarded, and calling \<open>find\<close> on it throws.
\<close>

definition findImagePart :: "Response \<Rightarrow> Thrown + Part option" where
  "findImagePart response =
     (case candidates response of
        None \<Rightarrow> Inr None
      | Some cs \<Rightarrow>
          (case cs of
             [] \<Rightarrow> Inr None
           | c # _ \<Rightarrow>
               (case content c of
                  None \<Rightarrow> Inr None
                | Some ct \<Rightarrow>
                    (case parts ct of
                       None \<Rightarrow> Inl TypeError
                     | Some ps \<Rightarrow> Inr (List.find (\<lambda>p. inlineData p \<noteq> None) ps)))))"

text \<open>Lines 307-315: the data URL of the returned image, or the thrown error.\<close>

definition extractImage :: "Response \<Rightarrow> Thrown + string" where
  "extractImage response =
     (case findImagePart response of
        Inl t \<Rightarrow> Inl t
      | Inr None \<Rightarrow> Inl NoImageReturned
      | Inr (Some imagePart) \<Rightarrow>
          (case inlineData imagePart of
             None \<Rightarrow> Inl NoImageReturned
           | Some d \<Rightarrow>
               Inr (''data:'' @ template (mimeType_D d) @ '';base64,'' @ template (data_D d))))"

text \<open>
  The body of the \<open>try\<close> block (lines 249-315): what it throws or the new display image,
  and the requests it has sent to the generation service.
\<close>

definition harmonizeRequest :: "HarmonizeEnv \<Rightarrow> App \<Rightarrow> Canvas \<Rightarrow> Request" where
  "harmonizeRequest env s canvas =
     \<lparr> model = ''gemini-2.5-flash-image-preview'',
       imageData = index1 (split CHR '','' (toDataURL env canvas)),
       promptText = buildPrompt (placedProducts s) (userInstructions s) \<rparr>"

definition tryHarmonize :: "HarmonizeEnv \<Rightarrow> App \<Rightarrow> (Thrown + string) \<times> Request list" where
  "tryHarmonize env s =
     (case buildComposite env (placedProducts s) of
        Inl t \<Rightarrow> (Inl t, [])
      | Inr canvas \<Rightarrow>
          let request = harmonizeRequest env s canvas in
          (case generateContent env request of
             Rejected \<Rightarrow> (Inl RequestFailed, [request])
           | Fulfilled response \<Rightarrow> (extractImage response, [request])))"

text \<open>
  \<open>handleHarmonize\<close> (lines 238-322): the state it leaves and the requests it has sent.
\<close>

definition handleHarmonize :: "HarmonizeEnv \<Rightarrow> App \<Rightarrow> App \<times> Request list" where
  "handleHarmonize env s =
     (if \<not> truthy (displayImage s) \<or> length (placedProducts s) = 0 then
        (s\<lparr> error := Some ''Please add a product to the room before harmonizing.'' \<rparr>, [])
      else
        let s1 = s\<lparr> previousState := Some \<lparr> displayImage_S = displayImage s,
                                              placedProducts_S = placedProducts s \<rparr>,
                     isLoading := True,
                     error := None \<rparr>
        in case tryHarmonize env s of
             (Inr newImageDataUrl, requests) \<Rightarrow>
               (s1\<lparr> displayImage := Some newImageDataUrl,
                    placedProducts := [],
                    isLoading := False \<rparr>, requests)
           | (Inl t, requests) \<Rightarrow>
               (s1\<lparr> error := Some ''Sorry, we couldn't harmonize your image. Please try again.'',
                    isLoading := False \<rparr>, requests))"

section \<open>Asynchronous handlers in two phases\<close>

text \<open>
  \<open>handleProductUpload\<close> and \<open>handleHarmonize\<close> await promises. Each runs up to its first
  \<open>await\<close> when it is called and goes on when the promises have settled; other events can
  be handled in between. The first phase works on the state of the call. The second
  phase applies its updates to the state of the time it runs: what it writes was
  computed from the values the handler saw when it was called.

  Lines 239-246 and lines 307-321 of \<open>handleHarmonize\<close>:
\<close>

definition harmonizeStart :: "App \<Rightarrow> App" where
  "harmonizeStart s =
     (if \<not> truthy (displayImage s) \<or> length (placedProducts s) = 0 then
        s\<lparr> error := Some ''Please add a product to the room before harmonizing.'' \<rparr>
      else
        s\<lparr> previousState := Some \<lparr> displayImage_S = displayImage s,
                                    placedProducts_S = placedProducts s \<rparr>,
           isLoading := True,
           error := None \<rparr>)"

definition harmonizeSettle :: "Thrown + string \<Rightarrow> App \<Rightarrow> App" where
  "harmonizeSettle r s =
     (case r of
        Inr newImageDataUrl \<Rightarrow>
          s\<lparr> displayImage := Some newImageDataUrl,
             placedProducts := [],
             isLoading := False \<rparr>
      | Inl t \<Rightarrow>
          s\<lparr> error := Some ''Sorry, we couldn't harmonize your image. Please try again.'',
             isLoading := False \<rparr>)"

text \<open>Lines 92-93 and lines 118-124 of \<open>handleProductUpload\<close>:\<close>

definition productUploadStart :: "App \<Rightarrow> App" where
  "productUploadStart s = s\<lparr> isProcessingProducts := True, error := None \<rparr>"

definition productUploadSettle :: "Available list Settled \<Rightarrow> App \<Rightarrow> App" where
  "productUploadSettle r s =
     (case r of
        Fulfilled newProducts \<Rightarrow>
          s\<lparr> availableProducts := availableProducts s @ newProducts,
             isProcessingProducts := False \<rparr>
      | Rejected \<Rightarrow>
          s\<lparr> error := Some ''Could not generate product descriptions. Please try again.'',
             isProcessingProducts := False \<rparr>)"

text \<open>
  The effect of lines 53-63: while \<open>isLoading\<close> holds, a timer replaces the loading
  message by the next one of the list every 2.5 seconds. \<open>indexOf\<close> is -1 for a message
  that is not in the list.
\<close>

fun indexOf :: "string list \<Rightarrow> string \<Rightarrow> int" where
  "indexOf [] m = -1"
| "indexOf (a # as) m =
     (if a = m then 0
      else (let r = indexOf as m in if r < 0 then -1 else r + 1))"

definition rotateLoadingMessage :: "App \<Rightarrow> App" where
  "rotateLoadingMessage s =
     (if isLoading s then
        (let currentIndex = indexOf loadingMessages (loadingMessage s)
         in s\<lparr> loadingMessage :=
                 loadingMessages ! nat ((currentIndex + 1) mod int (length loadingMessages)) \<rparr>)
      else s)"

section \<open>Sessions\<close>

text \<open>
  The events of a session, each with what the environment answers while its handler
  runs, and the handler each one invokes. \<open>ProductUpload\<close> and \<open>Harmonize\<close> are the
  asynchronous handlers run without another event in between; the events of their two
  phases let other events come in between, and a settling event carries the outcome the
  handler has computed. \<open>step\<close> does not ask whether the control of an event is rendered
  or whether a settling event follows its call, so the runs of \<open>run\<close> include every run
  of the component.
\<close>

datatype Event =
    RoomUpload "string list"
  | ProductUpload DescriptionService "string list"
  | Drop DropEvent
  | MouseDown MouseEvent bool int InteractionType
  | MouseMove MouseEvent
  | MouseUp
  | WorkspaceClick
  | Reset
  | Undo
  | Harmonize HarmonizeEnv
  | Instructions string
  | ProductUploadStart
  | ProductUploadSettle "Available list Settled"
  | HarmonizeStart
  | HarmonizeSettle "Thrown + string"
  | Tick

fun step :: "Event \<Rightarrow> App \<Rightarrow> App" where
  "step (RoomUpload urls) s = handleRoomUpload urls s"
| "step (ProductUpload service urls) s = handleProductUpload service urls s"
| "step (Drop e) s = handleDrop e s"
| "step (MouseDown e workspaceSet pid ty) s = handleMouseDown e workspaceSet pid ty s"
| "step (MouseMove e) s = handleMouseMove e s"
| "step MouseUp s = handleMouseUp s"
| "step WorkspaceClick s = handleWorkspaceClick s"
| "step Reset s = handleReset s"
| "step Undo s = handleUndo s"
| "step (Harmonize env) s = fst (handleHarmonize env s)"
| "step (Instructions t) s = s\<lparr> userInstructions := t \<rparr>"
| "step ProductUploadStart s = productUploadStart s"
| "step (ProductUploadSettle r) s = productUploadSettle r s"
| "step HarmonizeStart s = harmonizeStart s"
| "step (HarmonizeSettle r) s = harmonizeSettle r s"
| "step Tick s = rotateLoadingMessage s"

fun run :: "Event list \<Rightarrow> App \<Rightarrow> App" where
  "run [] s = s"
| "run (e # es) s = run es (step e s)"

text \<open>
  A drop reads the clock when its \<open>onload\<close> callback runs: when it has a payload with a
  source, the workspace is there and the image loads. \<open>readings\<close> are the values of
  \<open>Date.now()\<close> read along a run, in the order of the run.
\<close>

definition reachesOnload :: "DropEvent \<Rightarrow> bool" where
  "reachesOnload e \<longleftrightarrow>
     (case data e of None \<Rightarrow> False | Some d \<Rightarrow> src_A d \<noteq> [])
     \<and> workspaceRect e \<noteq> None \<and> loaded e \<noteq> None"

fun readings :: "Event list \<Rightarrow> int list" where
  "readings [] = []"
| "readings (Drop e # es) = (if reachesOnload e then now e # readings es else readings es)"
| "readings (_ # es) = readings es"

text \<open>
  The values of a field \<open>f\<close> over the placements of a state, and over the placements of
  its snapshot.
\<close>

definition placedField :: "(Product \<Rightarrow> 'a) \<Rightarrow> App \<Rightarrow> 'a list" where
  "placedField f s = map f (placedProducts s)"

definition previousField :: "(Product \<Rightarrow> 'a) \<Rightarrow> App \<Rightarrow> 'a list" where
  "previousField f s =
     (case previousState s of None \<Rightarrow> [] | Some prev \<Rightarrow> map f (placedProducts_S prev))"

text \<open>The ids of both are in strictly increasing order.\<close>

definition idsOrdered :: "App \<Rightarrow> bool" where
  "idsOrdered s \<longleftrightarrow>
     sorted_wrt (<) (placedField id_P s) \<and> sorted_wrt (<) (previousField id_P s)"

section \<open>Example inputs\<close>

text \<open>
  A catalog entry, a drop of it at a point of a workspace whose top left corner is the
  origin, with an image of natural size 300 x 200 and a given clock reading, a room, and
  environments of a harmonize call.
\<close>

definition armchair :: Available where
  "armchair = \<lparr> src_A = ''data:image/png;base64,AAAA'',
                description_A = ''a modern yellow armchair'' \<rparr>"

definition dropAt :: "number \<Rightarrow> number \<Rightarrow> int \<Rightarrow> DropEvent" where
  "dropAt px py t =
     \<lparr> clientX = px, clientY = py, data = Some armchair,
       workspaceRect = Some \<lparr> left_R = 0, top_R = 0 \<rparr>,
       loaded = Some (300, 200), now = t \<rparr>"

definition mouseAt :: "number \<Rightarrow> number \<Rightarrow> MouseEvent" where
  "mouseAt px py = \<lparr> clientX = px, clientY = py \<rparr>"

definition roomUrl :: string where
  "roomUrl = ''data:image/jpeg;base64,ROOM''"

definition roomElement :: RoomImage where
  "roomElement = \<lparr> naturalWidth = 1200, naturalHeight = 800,
                   clientWidth = 600, clientHeight = 400 \<rparr>"

definition imageResponse :: Response where
  "imageResponse =
     \<lparr> candidates = Some [\<lparr> content = Some \<lparr> parts = Some
         [\<lparr> inlineData = None \<rparr>,
          \<lparr> inlineData = Some \<lparr> data_D = Some ''BBBB'', mimeType_D = Some ''image/png'' \<rparr> \<rparr>] \<rparr> \<rparr>] \<rparr>"

definition textResponse :: Response where
  "textResponse =
     \<lparr> candidates = Some [\<lparr> content = Some \<lparr> parts = Some [\<lparr> inlineData = None \<rparr>] \<rparr> \<rparr>] \<rparr>"

definition envAnswering :: "Response \<Rightarrow> HarmonizeEnv" where
  "envAnswering r =
     \<lparr> ctxAvailable = True, imageRef = Some roomElement, imageLoads = (\<lambda>_. True),
       toDataURL = (\<lambda>_. ''data:image/jpeg;base64,CCCC''),
       generateContent = (\<lambda>_. Fulfilled r) \<rparr>"

text \<open>A description service that fails for one payload and answers any other.\<close>

definition failingFor :: "string \<Rightarrow> DescriptionService" where
  "failingFor bad base64Data mimeType =
     (if base64Data = bad then Rejected else Fulfilled (Some '' a chair ''))"

text \<open>
  A session in which a room is loaded, the armchair is dropped at (100, 100) and its
  resize handle is pressed at (250, 200); \<open>grip\<close> is the gesture this leaves in the ref.
\<close>

definition resizing :: App where
  "resizing =
     run [RoomUpload [roomUrl], Drop (dropAt 100 100 1000),
          MouseDown (mouseAt 250 200) True 1000 Resize] initialApp"

definition grip :: Interaction where
  "grip = \<lparr> type_I = Some Resize, productId = 1000, startX = 250, startY = 200,
            startLeft = 25, startTop = 75, startWidth = 150, startHeight = 100 \<rparr>"

text \<open>
  A session with two drops, at (100, 100) and (400, 300), whose images finish loading at
  the clock readings \<open>t1\<close> and \<open>t2\<close>; the state after the placement with id \<open>t1\<close> is then
  pressed at (100, 100) to be moved, and the gesture \<open>hold\<close> this leaves for \<open>t1 = 1000\<close>.
\<close>

definition twoDrops :: "int \<Rightarrow> int \<Rightarrow> Event list" where
  "twoDrops t1 t2 =
     [RoomUpload [roomUrl], Drop (dropAt 100 100 t1), Drop (dropAt 400 300 t2)]"

definition grabbed :: "int \<Rightarrow> int \<Rightarrow> App" where
  "grabbed t1 t2 =
     handleMouseDown (mouseAt 100 100) True t1 Move (run (twoDrops t1 t2) initialApp)"

definition hold :: Interaction where
  "hold = \<lparr> type_I = Some Move, productId = 1000, startX = 100, startY = 100,
            startLeft = 25, startTop = 75, startWidth = 150, startHeight = 100 \<rparr>"

text \<open>
  The states of a session with a room and no placement, with a room and one placement,
  and after a harmonize call on the latter that the service answers with an image.
\<close>

definition roomOnly :: App where
  "roomOnly = run [RoomUpload [roomUrl]] initialApp"

definition placing :: App where
  "placing = run [RoomUpload [roomUrl], Drop (dropAt 100 100 1000)] initialApp"

definition harmonized :: App where
  "harmonized = step (Harmonize (envAnswering imageResponse)) placing"

text \<open>Three uploaded product images; the payload of the second is \<open>BAD\<close>.\<close>

definition uploads :: "string list" where
  "uploads = [''data:image/png;base64,AAAA'', ''data:image/png;base64,BAD'',
              ''data:image/jpeg;base64,CCCC'']"

section \<open>Evaluation of the examples\<close>

lemmas handler_defs =
  handleRoomUpload_def handleDrop_def handleMouseDown_def handleMouseUp_def
  handleWorkspaceClick_def handleReset_def handleUndo_def first_url_def newProduct_def
  Let_def

lemmas example_defs =
  initialApp_def armchair_def dropAt_def mouseAt_def roomUrl_def roomElement_def

lemma placing_eq:
  "placing =
     initialApp\<lparr> originalRoomImage := Some roomUrl, displayImage := Some roomUrl,
       placedProducts :=
         [\<lparr> id_P = 1000, src = ''data:image/png;base64,AAAA'', x_P = 25, y_P = 75,
            width = 150, height = 100, aspectRatio = 3 / 2,
            description = ''a modern yellow armchair'' \<rparr>],
       selectedProductId := Some 1000 \<rparr>"
  by (simp add: placing_def handler_defs example_defs)

lemma grabbed_state:
  "interactionState (grabbed 1000 t) = Some hold"
  "map id_P (placedProducts (grabbed 1000 t)) = [1000, t]"
  "map x_P (placedProducts (grabbed 1000 t)) = [25, 325]"
  "map y_P (placedProducts (grabbed 1000 t)) = [75, 275]"
  by (simp_all add: grabbed_def twoDrops_def hold_def handler_defs example_defs)

lemma twoDrops_placed:
  "placedProducts (run (twoDrops t1 t2) initialApp) =
     [\<lparr> id_P = t1, src = ''data:image/png;base64,AAAA'', x_P = 25, y_P = 75,
        width = 150, height = 100, aspectRatio = 3 / 2,
        description = ''a modern yellow armchair'' \<rparr>,
      \<lparr> id_P = t2, src = ''data:image/png;base64,AAAA'', x_P = 325, y_P = 275,
        width = 150, height = 100, aspectRatio = 3 / 2,
        description = ''a modern yellow armchair'' \<rparr>]"
  by (simp add: twoDrops_def handler_defs example_defs)

section \<open>Promises\<close>

lemma promiseAll_map_Fulfilled: "promiseAll (map Fulfilled vs) = Fulfilled vs"
  by (induction vs) simp_all

lemma promiseAll_FulfilledD: "promiseAll ps = Fulfilled vs \<Longrightarrow> ps = map Fulfilled vs"
proof (induction ps arbitrary: vs rule: promiseAll.induct)
  case 1
  then show ?case by simp
next
  case (2 ps)
  then show ?case by simp
next
  case (3 v ps)
  show ?case
  proof (cases "promiseAll ps")
    case Rejected
    with "3.prems" show ?thesis by simp
  next
    case (Fulfilled ws)
    with "3.prems" have "vs = v # ws" by simp
    moreover from "3.IH" [OF Fulfilled] have "ps = map Fulfilled ws" .
    ultimately show ?thesis by simp
  qed
qed

lemma promiseAll_Fulfilled_iff: "promiseAll ps = Fulfilled vs \<longleftrightarrow> ps = map Fulfilled vs"
  using promiseAll_FulfilledD promiseAll_map_Fulfilled by blast

lemma promiseAll_Rejected_iff: "promiseAll ps = Rejected \<longleftrightarrow> Rejected \<in> set ps"
proof (induction ps rule: promiseAll.induct)
  case 1
  then show ?case by simp
next
  case (2 ps)
  then show ?case by simp
next
  case (3 v ps)
  then show ?case by (cases "promiseAll ps") simp_all
qed

section \<open>Fields of the placements along a run\<close>

lemma id_P_dragProduct: "id_P (dragProduct i dx dy p) = id_P p"
  by (simp add: dragProduct_def Let_def)

lemma aspectRatio_dragProduct: "aspectRatio (dragProduct i dx dy p) = aspectRatio p"
  by (simp add: dragProduct_def Let_def)

lemma field_handleMouseMove:
  assumes "\<And>i dx dy p. f (dragProduct i dx dy p) = f p"
  shows "placedField f (handleMouseMove e s) = placedField f s"
    and "previousField f (handleMouseMove e s) = previousField f s"
  using assms
  by (cases "interactionState s";
      simp add: handleMouseMove_def placedField_def previousField_def Let_def comp_def)+

lemma field_handleHarmonize:
  "(placedField f (fst (handleHarmonize env s)), previousField f (fst (handleHarmonize env s)))
     \<in> {(placedField f s, previousField f s), ([], placedField f s),
        (placedField f s, placedField f s)}"
  by (cases "tryHarmonize env s"; cases "fst (tryHarmonize env s)")
     (auto simp add: handleHarmonize_def placedField_def previousField_def Let_def)

lemma field_handleDrop:
  "(\<not> reachesOnload d \<and> handleDrop d s = s)
   \<or> (\<exists>dd rect img. reachesOnload d \<and> data d = Some dd \<and> workspaceRect d = Some rect
        \<and> loaded d = Some img
        \<and> previousField f (handleDrop d s) = previousField f s
        \<and> placedField f (handleDrop d s) = placedField f s @ [f (newProduct d dd rect img)])"
  by (auto simp add: handleDrop_def reachesOnload_def placedField_def previousField_def Let_def
        split: option.splits)

lemma field_handleMouseDown:
  "placedField f (handleMouseDown e w pid ty s) = placedField f s \<and>
   previousField f (handleMouseDown e w pid ty s) = previousField f s"
  by (auto simp add: handleMouseDown_def placedField_def previousField_def Let_def
        split: option.splits)

lemma field_handleProductUpload:
  "placedField f (handleProductUpload service urls s) = placedField f s \<and>
   previousField f (handleProductUpload service urls s) = previousField f s"
  by (auto simp add: handleProductUpload_def placedField_def previousField_def Let_def
        split: Settled.splits)

lemma field_step:
  assumes frame: "\<And>i dx dy p. f (dragProduct i dx dy p) = f p"
  shows "(\<exists>d. e = Drop d \<and>
            ((\<not> reachesOnload d \<and> step e s = s)
             \<or> (\<exists>dd rect img. reachesOnload d \<and> data d = Some dd
                   \<and> workspaceRect d = Some rect \<and> loaded d = Some img
                   \<and> previousField f (step e s) = previousField f s
                   \<and> placedField f (step e s)
                       = placedField f s @ [f (newProduct d dd rect img)])))
       \<or> (readings [e] = [] \<and>
           (placedField f (step e s), previousField f (step e s))
             \<in> {(placedField f s, previousField f s), ([], previousField f s),
                ([], placedField f s), (placedField f s, placedField f s),
                (previousField f s, []), ([], [])})"
proof (cases e)
  case (Harmonize env)
  then show ?thesis using field_handleHarmonize [of f env s] by auto
next
  case (Drop d)
  then show ?thesis using field_handleDrop [of d s f] by simp
next
  case Undo
  then show ?thesis
    by (cases "previousState s") (simp_all add: handleUndo_def placedField_def previousField_def)
next
  case (MouseMove m)
  then show ?thesis by (simp add: field_handleMouseMove [of f, OF frame])
next
  case (HarmonizeSettle r)
  then show ?thesis
    by (cases r) (simp_all add: harmonizeSettle_def placedField_def previousField_def)
next
  case (ProductUploadSettle r)
  then show ?thesis
    by (cases r) (simp_all add: productUploadSettle_def placedField_def previousField_def)
qed (simp_all add: field_handleMouseDown field_handleProductUpload,
     simp_all add: handleRoomUpload_def handleReset_def handleMouseUp_def
       handleWorkspaceClick_def productUploadStart_def harmonizeStart_def
       rotateLoadingMessage_def placedField_def previousField_def Let_def)

lemma readings_Cons: "readings (e # es) = readings [e] @ readings es"
  by (cases e) simp_all

lemma readings_Drop: "reachesOnload d \<Longrightarrow> readings [Drop d] = [now d]"
  by simp

lemma id_P_newProduct: "id_P (newProduct d dd rect img) = now d"
  by (simp add: newProduct_def Let_def)

lemma step_ids:
  assumes "idsOrdered s"
    and "\<forall>a \<in> set (placedField id_P s) \<union> set (previousField id_P s).
           \<forall>r \<in> set (readings [e]). a < r"
  shows "idsOrdered (step e s)
     \<and> set (placedField id_P (step e s)) \<union> set (previousField id_P (step e s))
         \<subseteq> set (placedField id_P s) \<union> set (previousField id_P s) \<union> set (readings [e])"
proof -
  consider d where "e = Drop d" "step e s = s"
    | d dd rect img where "e = Drop d" "readings [e] = [now d]"
        "previousField id_P (step e s) = previousField id_P s"
        "placedField id_P (step e s) = placedField id_P s @ [id_P (newProduct d dd rect img)]"
    | "readings [e] = []"
      "(placedField id_P (step e s), previousField id_P (step e s))
         \<in> {(placedField id_P s, previousField id_P s), ([], previousField id_P s),
            ([], placedField id_P s), (placedField id_P s, placedField id_P s),
            (previousField id_P s, []), ([], [])}"
    using field_step [of id_P e s, OF id_P_dragProduct] readings_Drop by blast
  then show ?thesis
  proof cases
    case 1
    with assms(1) show ?thesis by auto
  next
    case 2
    with assms show ?thesis
      by (auto simp add: idsOrdered_def sorted_wrt_append id_P_newProduct)
  next
    case 3
    with assms(1) show ?thesis
      by (auto simp add: idsOrdered_def)
  qed
qed

lemma run_ids:
  "idsOrdered s \<Longrightarrow> sorted_wrt (<) (readings es) \<Longrightarrow>
   (\<forall>a \<in> set (placedField id_P s) \<union> set (previousField id_P s).
      \<forall>r \<in> set (readings es). a < r) \<Longrightarrow>
   idsOrdered (run es s) \<and>
   set (placedField id_P (run es s)) \<union> set (previousField id_P (run es s))
     \<subseteq> set (placedField id_P s) \<union> set (previousField id_P s) \<union> set (readings es)"
proof (induction es arbitrary: s)
  case Nil
  then show ?case by simp
next
  case (Cons e es)
  let ?t = "step e s"
  have r: "readings (e # es) = readings [e] @ readings es" by (rule readings_Cons)
  have b1: "\<forall>a \<in> set (placedField id_P s) \<union> set (previousField id_P s).
           \<forall>r \<in> set (readings [e]). a < r"
    using Cons.prems(3) by (simp add: r)
  note st = step_ids [OF Cons.prems(1) b1]
  have s2: "sorted_wrt (<) (readings es)"
    using Cons.prems(2) by (simp add: r sorted_wrt_append)
  have b2: "\<forall>a \<in> set (placedField id_P ?t) \<union> set (previousField id_P ?t).
              \<forall>r \<in> set (readings es). a < r"
    using st Cons.prems(2,3) by (auto simp add: r sorted_wrt_append)
  from Cons.IH [OF conjunct1 [OF st] s2 b2] st
  show ?case by (auto simp add: r)
qed

lemma step_aspectRatio_pos:
  assumes "\<forall>a \<in> set (placedField aspectRatio s) \<union> set (previousField aspectRatio s). 0 < a"
    and "\<forall>d w h. e = Drop d \<and> loaded d = Some (w, h) \<longrightarrow> 0 < w \<and> 0 < h"
  shows "\<forall>a \<in> set (placedField aspectRatio (step e s))
               \<union> set (previousField aspectRatio (step e s)). 0 < a"
proof -
  consider d where "e = Drop d" "step e s = s"
    | d dd rect img where "e = Drop d" "loaded d = Some img"
        "previousField aspectRatio (step e s) = previousField aspectRatio s"
        "placedField aspectRatio (step e s)
           = placedField aspectRatio s @ [aspectRatio (newProduct d dd rect img)]"
    | "(placedField aspectRatio (step e s), previousField aspectRatio (step e s))
         \<in> {(placedField aspectRatio s, previousField aspectRatio s),
            ([], previousField aspectRatio s),
            ([], placedField aspectRatio s),
            (placedField aspectRatio s, placedField aspectRatio s),
            (previousField aspectRatio s, []), ([], [])}"
    using field_step [of aspectRatio e s, OF aspectRatio_dragProduct] by blast
  then show ?thesis
  proof cases
    case 1
    with assms(1) show ?thesis by simp
  next
    case 2
    from 2(1,2) assms(2) have "0 < fst img" "0 < snd img"
      by (cases img; simp)+
    then have "0 < aspectRatio (newProduct d dd rect img)"
      by (simp add: newProduct_def Let_def)
    with 2 assms(1) show ?thesis by auto
  next
    case 3
    with assms(1) show ?thesis by auto
  qed
qed

lemma run_aspectRatio_pos:
  "\<forall>a \<in> set (placedField aspectRatio s) \<union> set (previousField aspectRatio s). 0 < a \<Longrightarrow>
   \<forall>d w h. Drop d \<in> set es \<and> loaded d = Some (w, h) \<longrightarrow> 0 < w \<and> 0 < h \<Longrightarrow>
   \<forall>a \<in> set (placedField aspectRatio (run es s))
          \<union> set (previousField aspectRatio (run es s)). 0 < a"
proof (induction es arbitrary: s)
  case Nil
  then show ?case by simp
next
  case (Cons e es)
  have "\<forall>a \<in> set (placedField aspectRatio (step e s))
               \<union> set (previousField aspectRatio (step e s)). 0 < a"
    by (rule step_aspectRatio_pos [OF Cons.prems(1)]) (use Cons.prems(2) in auto)
  moreover have "\<forall>d w h. Drop d \<in> set es \<and> loaded d = Some (w, h) \<longrightarrow> 0 < w \<and> 0 < h"
    using Cons.prems(2) by auto
  ultimately show ?case using Cons.IH [of "step e s"] by simp
qed

lemma reachable_aspectRatio_pos:
  assumes "\<forall>d w h. Drop d \<in> set es \<and> loaded d = Some (w, h) \<longrightarrow> 0 < w \<and> 0 < h"
    and "p \<in> set (placedProducts (run es initialApp))"
  shows "0 < aspectRatio p"
proof -
  have "\<forall>a \<in> set (placedField aspectRatio initialApp)
              \<union> set (previousField aspectRatio initialApp). 0 < a"
    by (simp add: placedField_def previousField_def initialApp_def)
  from run_aspectRatio_pos [OF this assms(1)] assms(2) show ?thesis
    by (simp add: placedField_def)
qed

section \<open>Moving and resizing\<close>

lemma placedProducts_handleMouseMove:
  "interactionState s = Some i \<Longrightarrow>
   placedProducts (handleMouseMove e s) =
     map (dragProduct i (clientX e - startX i) (clientY e - startY i)) (placedProducts s)"
  by (simp add: handleMouseMove_def Let_def)

lemma handleMouseMove_frame:
  "handleMouseMove e s = s\<lparr> placedProducts := placedProducts (handleMouseMove e s) \<rparr>"
  by (cases "interactionState s") (simp_all add: handleMouseMove_def Let_def)

text \<open>
  Claim C1. While a resize gesture is active, a pointer move gives the dragged placement
  the width \<open>max (startWidth + dx) 20\<close>, where \<open>dx\<close> is the distance of the pointer from
  the start of the gesture, however negative, and the height \<open>width / aspectRatio\<close>: the
  width is never below 20, the height never below \<open>20 / aspectRatio\<close>, and the aspect
  ratio is kept. The placement has a positive aspect ratio, as every placement of a
  session has in which the dropped images have a positive width and height
  (\<open>reachable_aspectRatio_pos\<close>).
\<close>

theorem resize_clamps_width_and_height:
  assumes "interactionState s = Some i"
    and "type_I i = Some Resize"
    and "k < length (placedProducts s)"
    and "id_P (placedProducts s ! k) = productId i"
    and "0 < aspectRatio (placedProducts s ! k)"
  shows "width (placedProducts (handleMouseMove e s) ! k)
           = max (startWidth i + (clientX e - startX i)) 20
       \<and> height (placedProducts (handleMouseMove e s) ! k)
           = width (placedProducts (handleMouseMove e s) ! k)
             / aspectRatio (placedProducts (handleMouseMove e s) ! k)
       \<and> \<not> width (placedProducts (handleMouseMove e s) ! k) < 20
       \<and> \<not> height (placedProducts (handleMouseMove e s) ! k)
             < 20 / aspectRatio (placedProducts (handleMouseMove e s) ! k)
       \<and> aspectRatio (placedProducts (handleMouseMove e s) ! k)
           = aspectRatio (placedProducts s ! k)"
  using assms
  by (auto simp add: placedProducts_handleMouseMove dragProduct_def Let_def
        divide_less_cancel divide_le_cancel not_less max_def)

theorem resize_clamps_width_and_height_witness:
  "interactionState resizing = Some grip \<and> type_I grip = Some Resize
   \<and> 0 < length (placedProducts resizing)
   \<and> id_P (placedProducts resizing ! 0) = productId grip
   \<and> 0 < aspectRatio (placedProducts resizing ! 0)
   \<and> width (placedProducts (handleMouseMove (mouseAt (-750) 200) resizing) ! 0) = 20
   \<and> height (placedProducts (handleMouseMove (mouseAt (-750) 200) resizing) ! 0)
       = 20 / (3 / 2)"
proof -
  have h1: "interactionState resizing = Some grip"
    by (simp add: resizing_def grip_def handler_defs example_defs)
  have h2: "type_I grip = Some Resize"
    by (simp add: grip_def)
  have h3: "0 < length (placedProducts resizing)"
    by (simp add: resizing_def handler_defs example_defs)
  have h4: "id_P (placedProducts resizing ! 0) = productId grip"
    by (simp add: resizing_def grip_def handler_defs example_defs)
  have a: "aspectRatio (placedProducts resizing ! 0) = 3 / 2"
    by (simp add: resizing_def handler_defs example_defs)
  have h5: "0 < aspectRatio (placedProducts resizing ! 0)"
    by (simp add: a)
  note r = resize_clamps_width_and_height [OF h1 h2 h3 h4 h5, of "mouseAt (-750) 200"]
  from r have w:
    "width (placedProducts (handleMouseMove (mouseAt (-750) 200) resizing) ! 0) = 20"
    by (simp add: grip_def mouseAt_def)
  from r have
    "height (placedProducts (handleMouseMove (mouseAt (-750) 200) resizing) ! 0)
       = width (placedProducts (handleMouseMove (mouseAt (-750) 200) resizing) ! 0)
         / aspectRatio (placedProducts resizing ! 0)"
    by presburger
  then have h:
    "height (placedProducts (handleMouseMove (mouseAt (-750) 200) resizing) ! 0)
       = 20 / (3 / 2)"
    by (simp only: w a)
  from h1 h2 h3 h4 h5 w h show ?thesis by blast
qed

text \<open>
  Claim C2, as amended. While a move gesture is active, a pointer move changes nothing
  but the placements: a placement whose id is the id of the gesture gets the position
  \<open>(startLeft + dx, startTop + dy)\<close> and keeps its width, height, aspect ratio, id, image
  source and description; a placement with another id is unchanged; the collection keeps
  its length and order.
\<close>

theorem move_changes_position_of_dragged_id:
  assumes "interactionState s = Some i"
    and "type_I i = Some Move"
    and "k < length (placedProducts s)"
  shows "placedProducts (handleMouseMove e s) ! k =
           (if id_P (placedProducts s ! k) = productId i
            then (placedProducts s ! k)\<lparr> x_P := startLeft i + (clientX e - startX i),
                                          y_P := startTop i + (clientY e - startY i) \<rparr>
            else placedProducts s ! k)
       \<and> width (placedProducts (handleMouseMove e s) ! k) = width (placedProducts s ! k)
       \<and> height (placedProducts (handleMouseMove e s) ! k) = height (placedProducts s ! k)
       \<and> aspectRatio (placedProducts (handleMouseMove e s) ! k)
           = aspectRatio (placedProducts s ! k)
       \<and> id_P (placedProducts (handleMouseMove e s) ! k) = id_P (placedProducts s ! k)
       \<and> src (placedProducts (handleMouseMove e s) ! k) = src (placedProducts s ! k)
       \<and> description (placedProducts (handleMouseMove e s) ! k)
           = description (placedProducts s ! k)
       \<and> length (placedProducts (handleMouseMove e s)) = length (placedProducts s)
       \<and> handleMouseMove e s = s\<lparr> placedProducts := placedProducts (handleMouseMove e s) \<rparr>"
  using assms handleMouseMove_frame [of e s]
  by (simp add: placedProducts_handleMouseMove dragProduct_def)

theorem move_changes_position_of_dragged_id_witness:
  "interactionState (grabbed 1000 1001) = Some hold \<and> type_I hold = Some Move
   \<and> 1 < length (placedProducts (grabbed 1000 1001))
   \<and> map x_P (placedProducts (grabbed 1000 1001)) = [25, 325]
   \<and> x_P (placedProducts (handleMouseMove (mouseAt 110 120) (grabbed 1000 1001)) ! 0) = 35
   \<and> y_P (placedProducts (handleMouseMove (mouseAt 110 120) (grabbed 1000 1001)) ! 0) = 95
   \<and> placedProducts (handleMouseMove (mouseAt 110 120) (grabbed 1000 1001)) ! 1
       = placedProducts (grabbed 1000 1001) ! 1"
proof -
  have h1: "interactionState (grabbed 1000 1001) = Some hold"
    by (rule grabbed_state)
  have h2: "type_I hold = Some Move"
    by (simp add: hold_def)
  have l: "length (placedProducts (grabbed 1000 1001)) = 2"
    using grabbed_state(2) [of 1001]
    by (metis length_map length_Cons list.size(3) One_nat_def Suc_1)
  have h3: "1 < length (placedProducts (grabbed 1000 1001))"
    and h3': "0 < length (placedProducts (grabbed 1000 1001))"
    by (simp_all add: l)
  have i0: "id_P (placedProducts (grabbed 1000 1001) ! 0) = 1000"
    using grabbed_state(2) [of 1001] by (metis nth_map h3' nth_Cons_0)
  have i1: "id_P (placedProducts (grabbed 1000 1001) ! 1) = 1001"
    using grabbed_state(2) [of 1001]
    by (metis nth_map h3 nth_Cons_0 nth_Cons_Suc One_nat_def)
  note r0 = move_changes_position_of_dragged_id [OF h1 h2 h3', of "mouseAt 110 120"]
  note r1 = move_changes_position_of_dragged_id [OF h1 h2 h3, of "mouseAt 110 120"]
  from r0 i0 have a:
    "x_P (placedProducts (handleMouseMove (mouseAt 110 120) (grabbed 1000 1001)) ! 0) = 35"
    "y_P (placedProducts (handleMouseMove (mouseAt 110 120) (grabbed 1000 1001)) ! 0) = 95"
    by (simp_all add: hold_def mouseAt_def)
  from r1 i1 have b:
    "placedProducts (handleMouseMove (mouseAt 110 120) (grabbed 1000 1001)) ! 1
       = placedProducts (grabbed 1000 1001) ! 1"
    by (simp add: hold_def)
  from h1 h2 h3 a b grabbed_state(3) show ?thesis by blast
qed

text \<open>
  When two placements share an id, moving the first one moves the second one too: in
  the session whose two images finish loading at the same clock reading, the second
  placement stands at x = 325 before the pointer move and at x = 35 after it.
\<close>

theorem move_changes_placement_with_equal_id:
  "x_P (placedProducts (grabbed 1000 1000) ! 1) = 325
   \<and> x_P (placedProducts (handleMouseMove (mouseAt 110 120) (grabbed 1000 1000)) ! 1) = 35"
  by (simp add: grabbed_def twoDrops_def handleMouseMove_def dragProduct_def
        handler_defs example_defs)

section \<open>Dropping\<close>

text \<open>
  What a drop creates from an image of positive size: the placement is 150 wide, has the
  aspect ratio of the image, lies half its width to the left of the drop point and a
  quarter of its height above it.
\<close>

lemma handleDrop_creates:
  assumes "data e = Some d" and "src_A d \<noteq> []" and "workspaceRect e = Some rect"
    and "loaded e = Some (w, h)" and "0 < w" and "0 < h"
  shows "\<exists>p. placedProducts (handleDrop e s) = placedProducts s @ [p]
      \<and> aspectRatio p = real w / real h \<and> width p = 150 \<and> height p = 150 / aspectRatio p
      \<and> x_P p = (clientX e - left_R rect) - width p / 2
      \<and> y_P p = (clientY e - top_R rect) - height p / 4"
  using assms by (simp add: handleDrop_def newProduct_def Let_def)

text \<open>
  Claim C8. A drop at (100, 100) of an image of natural size 300 x 200 creates a placement
  of aspect ratio 3/2, width 150 and height 100 whose left edge is at 25, half the width
  left of the drop point, and whose top edge is at 75: not at 50, half the height above
  the drop point.
\<close>

theorem handleDrop_offsets_top_by_quarter_height:
  "placedProducts (handleDrop (dropAt 100 100 1000) initialApp) =
     [\<lparr> id_P = 1000, src = ''data:image/png;base64,AAAA'', x_P = 25, y_P = 75,
        width = 150, height = 100, aspectRatio = 3 / 2,
        description = ''a modern yellow armchair'' \<rparr>]
   \<and> y_P (placedProducts (handleDrop (dropAt 100 100 1000) initialApp) ! 0)
       \<noteq> clientY (dropAt 100 100 1000)
           - height (placedProducts (handleDrop (dropAt 100 100 1000) initialApp) ! 0) / 2"
  by (simp add: handler_defs example_defs)

section \<open>Ids\<close>

text \<open>
  Claim C9, as amended. The id of a placement is the clock reading taken when its image
  has loaded. In a session in which the readings taken by the successive drops strictly
  increase, the ids of the placements strictly increase in the order of insertion, so
  they are pairwise different, and each of them is one of the readings.
\<close>

theorem ids_increase_with_clock:
  assumes "sorted_wrt (<) (readings es)"
  shows "sorted_wrt (<) (map id_P (placedProducts (run es initialApp)))
     \<and> distinct (map id_P (placedProducts (run es initialApp)))
     \<and> set (map id_P (placedProducts (run es initialApp))) \<subseteq> set (readings es)"
proof -
  have i: "idsOrdered initialApp" "placedField id_P initialApp = []"
    "previousField id_P initialApp = []"
    by (simp_all add: idsOrdered_def placedField_def previousField_def initialApp_def)
  from run_ids [OF i(1) assms] i(2,3)
  have "idsOrdered (run es initialApp)"
    and "set (placedField id_P (run es initialApp)) \<subseteq> set (readings es)"
    by auto
  then show ?thesis
    by (simp add: idsOrdered_def strict_sorted_iff placedField_def)
qed

theorem ids_increase_with_clock_witness:
  "sorted_wrt (<) (readings (twoDrops 1000 1001))
   \<and> map id_P (placedProducts (run (twoDrops 1000 1001) initialApp)) = [1000, 1001]
   \<and> sorted_wrt (<) (map id_P (placedProducts (run (twoDrops 1000 1001) initialApp)))
   \<and> distinct (map id_P (placedProducts (run (twoDrops 1000 1001) initialApp)))"
proof -
  have h: "sorted_wrt (<) (readings (twoDrops 1000 1001))"
    by (simp add: twoDrops_def dropAt_def reachesOnload_def armchair_def)
  have e: "map id_P (placedProducts (run (twoDrops 1000 1001) initialApp)) = [1000, 1001]"
    by (simp add: twoDrops_placed)
  from ids_increase_with_clock [OF h] h e show ?thesis by blast
qed

text \<open>
  Two drops whose images finish loading at the same clock reading give two placements
  with the same id.
\<close>

theorem equal_clock_readings_give_equal_ids:
  "map id_P (placedProducts (run (twoDrops 1000 1000) initialApp)) = [1000, 1000]"
  by (simp add: twoDrops_placed)

section \<open>The composite\<close>

lemma loads_all:
  "\<forall>p \<in> set products. imageLoads env (src p) \<Longrightarrow>
   promiseAll (map (loadProductImage env) products)
     = Fulfilled (map (\<lambda>p. ProductImage (src p)) products)"
  by (simp add: promiseAll_Fulfilled_iff loadProductImage_def)

lemma map_index:
  "map (\<lambda>index. f (map g xs ! index) (xs ! index)) [0 ..< length xs] = map (\<lambda>x. f (g x) x) xs"
  by (rule nth_equalityI) simp_all

lemma buildComposite_Inr:
  assumes "ctxAvailable env"
    and "imageRef env = Some img"
    and "\<forall>p \<in> set products. imageLoads env (src p)"
  shows "buildComposite env products =
     Inr \<lparr> width_C = naturalWidth img, height_C = naturalHeight img,
           calls =
             DrawImage BaseImage 0 0 (real (naturalWidth img)) (real (naturalHeight img)) #
             map (\<lambda>p. drawProduct (real (naturalWidth img) / real (clientWidth img))
                         (real (naturalHeight img) / real (clientHeight img))
                         (ProductImage (src p)) p) products \<rparr>"
  using assms(1,2) loads_all [OF assms(3)]
  by (simp add: buildComposite_def Let_def map_index)

text \<open>
  Claim C3. When the context and the room image element are there, every placement image
  loads and the room image is displayed with a positive width and height, the composite
  is a canvas of the natural size of the room image on which the room image is drawn
  first and then every placement, in the order of the placements: the placement at
  \<open>(x, y)\<close> of size \<open>(width, height)\<close> is drawn at \<open>(x * scaleX, y * scaleY)\<close> with the
  size \<open>(width * scaleX, height * scaleY)\<close>, where \<open>scaleX = naturalWidth / clientWidth\<close>
  and \<open>scaleY = naturalHeight / clientHeight\<close>. A later call paints over an earlier one.
\<close>

theorem buildComposite_draws_scaled_in_order:
  assumes "ctxAvailable env"
    and "imageRef env = Some img"
    and "\<forall>p \<in> set products. imageLoads env (src p)"
    and "0 < clientWidth img" and "0 < clientHeight img"
  shows "\<exists>canvas. buildComposite env products = Inr canvas
      \<and> width_C canvas = naturalWidth img \<and> height_C canvas = naturalHeight img
      \<and> calls canvas =
          DrawImage BaseImage 0 0 (real (naturalWidth img)) (real (naturalHeight img)) #
          map (\<lambda>p. DrawImage (ProductImage (src p))
                     (x_P p * (real (naturalWidth img) / real (clientWidth img)))
                     (y_P p * (real (naturalHeight img) / real (clientHeight img)))
                     (width p * (real (naturalWidth img) / real (clientWidth img)))
                     (height p * (real (naturalHeight img) / real (clientHeight img))))
              products"
  by (simp add: buildComposite_Inr [OF assms(1,2,3)] drawProduct_def)

theorem buildComposite_draws_scaled_in_order_witness:
  "ctxAvailable (envAnswering imageResponse)
   \<and> imageRef (envAnswering imageResponse) = Some roomElement
   \<and> 0 < clientWidth roomElement \<and> 0 < clientHeight roomElement
   \<and> (\<exists>canvas. buildComposite (envAnswering imageResponse)
                  (placedProducts (run (twoDrops 1000 1001) initialApp)) = Inr canvas
         \<and> calls canvas =
             [DrawImage BaseImage 0 0 1200 800,
              DrawImage (ProductImage ''data:image/png;base64,AAAA'') 50 150 300 200,
              DrawImage (ProductImage ''data:image/png;base64,AAAA'') 650 550 300 200])"
proof -
  have h1: "ctxAvailable (envAnswering imageResponse)"
    and h2: "imageRef (envAnswering imageResponse) = Some roomElement"
    and h3: "\<forall>p \<in> set (placedProducts (run (twoDrops 1000 1001) initialApp)).
               imageLoads (envAnswering imageResponse) (src p)"
    by (simp_all add: envAnswering_def)
  have h4: "0 < clientWidth roomElement" and h5: "0 < clientHeight roomElement"
    by (simp_all add: roomElement_def)
  from buildComposite_draws_scaled_in_order [OF h1 h2 h3 h4 h5]
  obtain canvas where
    c: "buildComposite (envAnswering imageResponse)
          (placedProducts (run (twoDrops 1000 1001) initialApp)) = Inr canvas"
    and d: "calls canvas =
          DrawImage BaseImage 0 0 (real (naturalWidth roomElement))
            (real (naturalHeight roomElement)) #
          map (\<lambda>p. DrawImage (ProductImage (src p))
                     (x_P p * (real (naturalWidth roomElement) / real (clientWidth roomElement)))
                     (y_P p * (real (naturalHeight roomElement) / real (clientHeight roomElement)))
                     (width p * (real (naturalWidth roomElement) / real (clientWidth roomElement)))
                     (height p * (real (naturalHeight roomElement) / real (clientHeight roomElement))))
              (placedProducts (run (twoDrops 1000 1001) initialApp))"
    by blast
  from d have "calls canvas =
             [DrawImage BaseImage 0 0 1200 800,
              DrawImage (ProductImage ''data:image/png;base64,AAAA'') 50 150 300 200,
              DrawImage (ProductImage ''data:image/png;base64,AAAA'') 650 550 300 200]"
    by (simp add: twoDrops_placed roomElement_def)
  with c h1 h2 h4 h5 show ?thesis by blast
qed

section \<open>Product upload\<close>

lemma describeProduct_src: "describeProduct service url = Fulfilled a \<Longrightarrow> src_A a = url"
  by (auto simp add: describeProduct_def Let_def split: if_splits Settled.splits option.splits)

text \<open>
  The promise of an item rejects exactly when its url has a payload and a type and the
  service rejects the request or answers without a text.
\<close>

lemma describeProduct_Rejected_iff:
  "describeProduct service url = Rejected \<longleftrightarrow>
     truthy (index1 (split CHR '','' url)) \<and> truthy (matchMimeType url)
     \<and> (service (the (index1 (split CHR '','' url))) (the (matchMimeType url)) = Rejected
        \<or> service (the (index1 (split CHR '','' url))) (the (matchMimeType url))
            = Fulfilled None)"
  by (auto simp add: describeProduct_def Let_def split: Settled.splits option.splits)

lemma map_Fulfilled_src:
  "map (describeProduct service) urls = map Fulfilled entries \<Longrightarrow> map src_A entries = urls"
proof (induction urls arbitrary: entries)
  case Nil
  then show ?case by simp
next
  case (Cons u us)
  then show ?case by (cases entries) (auto dest: describeProduct_src)
qed

lemma handleProductUpload_Rejected:
  assumes "promiseAll (map (describeProduct service) urls) = Rejected"
  shows "handleProductUpload service urls s =
     s\<lparr> isProcessingProducts := False,
        error := Some ''Could not generate product descriptions. Please try again.'' \<rparr>"
  using assms by (simp add: handleProductUpload_def)

lemma handleProductUpload_Fulfilled:
  assumes "promiseAll (map (describeProduct service) urls) = Fulfilled entries"
  shows "handleProductUpload service urls s =
     s\<lparr> isProcessingProducts := False, error := None,
        availableProducts := availableProducts s @ entries \<rparr>"
  using assms by (simp add: handleProductUpload_def)

text \<open>
  Claim C4. If the promise of one image of the batch rejects, the catalog is what it was
  and the error message of the upload is shown. Otherwise the entries of all images are
  appended to the catalog in the order of the urls, one entry for each url, and no error
  is shown. In both cases the upload is no longer in progress.
\<close>

theorem handleProductUpload_all_or_nothing:
  "(if \<exists>url \<in> set urls. describeProduct service url = Rejected
    then availableProducts (handleProductUpload service urls s) = availableProducts s
       \<and> error (handleProductUpload service urls s)
           = Some ''Could not generate product descriptions. Please try again.''
    else (\<exists>entries. map Fulfilled entries = map (describeProduct service) urls
            \<and> map src_A entries = urls
            \<and> availableProducts (handleProductUpload service urls s)
                = availableProducts s @ entries)
       \<and> error (handleProductUpload service urls s) = None)
   \<and> \<not> isProcessingProducts (handleProductUpload service urls s)"
proof (cases "promiseAll (map (describeProduct service) urls)")
  case Rejected
  then have "Rejected \<in> describeProduct service ` set urls"
    by (simp add: promiseAll_Rejected_iff)
  then have "\<exists>url \<in> set urls. describeProduct service url = Rejected"
    by force
  then show ?thesis
    by (simp add: handleProductUpload_Rejected [OF Rejected])
next
  case (Fulfilled entries)
  then have m: "map (describeProduct service) urls = map Fulfilled entries"
    by (simp add: promiseAll_Fulfilled_iff)
  have "Rejected \<notin> set (map (describeProduct service) urls)"
    unfolding m by auto
  then have n: "\<not> (\<exists>url \<in> set urls. describeProduct service url = Rejected)"
    by force
  have "map Fulfilled entries = map (describeProduct service) urls
      \<and> map src_A entries = urls
      \<and> availableProducts (handleProductUpload service urls s) = availableProducts s @ entries"
    using m map_Fulfilled_src [OF m]
    by (simp add: handleProductUpload_Fulfilled [OF Fulfilled])
  then have "\<exists>entries. map Fulfilled entries = map (describeProduct service) urls
      \<and> map src_A entries = urls
      \<and> availableProducts (handleProductUpload service urls s) = availableProducts s @ entries"
    by (rule exI)
  with n show ?thesis
    by (simp add: handleProductUpload_Fulfilled [OF Fulfilled])
qed

lemma describe_uploads:
  "map (describeProduct (failingFor bad)) uploads =
     [if bad = ''AAAA'' then Rejected
      else Fulfilled \<lparr> src_A = ''data:image/png;base64,AAAA'', description_A = ''a chair'' \<rparr>,
      if bad = ''BAD'' then Rejected
      else Fulfilled \<lparr> src_A = ''data:image/png;base64,BAD'', description_A = ''a chair'' \<rparr>,
      if bad = ''CCCC'' then Rejected
      else Fulfilled \<lparr> src_A = ''data:image/jpeg;base64,CCCC'', description_A = ''a chair'' \<rparr>]"
  by (simp add: uploads_def describeProduct_def failingFor_def index1_def truthy_def
        lineTerminator_def trim_def whiteSpace_def Let_def)

theorem handleProductUpload_all_or_nothing_witness:
  "describeProduct (failingFor ''BAD'') (uploads ! 1) = Rejected
   \<and> availableProducts (handleProductUpload (failingFor ''BAD'') uploads roomOnly) = []
   \<and> error (handleProductUpload (failingFor ''BAD'') uploads roomOnly)
       = Some ''Could not generate product descriptions. Please try again.''
   \<and> map src_A (availableProducts (handleProductUpload (failingFor ''none'') uploads roomOnly))
       = uploads
   \<and> error (handleProductUpload (failingFor ''none'') uploads roomOnly) = None"
proof -
  have a: "availableProducts roomOnly = []"
    by (simp add: roomOnly_def handler_defs example_defs)
  have r: "describeProduct (failingFor ''BAD'') (uploads ! 1) = Rejected"
    using describe_uploads [of "''BAD''"] by (simp add: uploads_def)
  have "uploads ! 1 \<in> set uploads"
    by (simp add: uploads_def)
  with r have bad: "\<exists>url \<in> set uploads. describeProduct (failingFor ''BAD'') url = Rejected"
    by blast
  have "Rejected \<notin> set (map (describeProduct (failingFor ''none'')) uploads)"
    by (simp add: describe_uploads)
  then have good: "\<not> (\<exists>url \<in> set uploads. describeProduct (failingFor ''none'') url = Rejected)"
    by force
  from handleProductUpload_all_or_nothing [of uploads "failingFor ''BAD''" roomOnly] bad
  have f: "availableProducts (handleProductUpload (failingFor ''BAD'') uploads roomOnly) = []"
    "error (handleProductUpload (failingFor ''BAD'') uploads roomOnly)
       = Some ''Could not generate product descriptions. Please try again.''"
    by (simp_all only: if_True a)
  from handleProductUpload_all_or_nothing [of uploads "failingFor ''none''" roomOnly] good
  obtain entries where
    "map src_A entries = uploads"
    "availableProducts (handleProductUpload (failingFor ''none'') uploads roomOnly)
       = availableProducts roomOnly @ entries"
    and e: "error (handleProductUpload (failingFor ''none'') uploads roomOnly) = None"
    by (simp only: if_False) blast
  then have g:
    "map src_A (availableProducts (handleProductUpload (failingFor ''none'') uploads roomOnly))
       = uploads"
    by (simp add: a)
  from r f g e show ?thesis by blast
qed

section \<open>Harmonize\<close>

lemma handleHarmonize_rejected:
  assumes "\<not> truthy (displayImage s) \<or> length (placedProducts s) = 0"
  shows "handleHarmonize env s =
     (s\<lparr> error := Some ''Please add a product to the room before harmonizing.'' \<rparr>, [])"
  using assms by (auto simp add: handleHarmonize_def)

lemma handleHarmonize_thrown:
  assumes "truthy (displayImage s)" and "length (placedProducts s) \<noteq> 0"
    and "tryHarmonize env s = (Inl t, requests)"
  shows "handleHarmonize env s =
     (s\<lparr> previousState := Some \<lparr> displayImage_S = displayImage s,
                                 placedProducts_S = placedProducts s \<rparr>,
         isLoading := False,
         error := Some ''Sorry, we couldn't harmonize your image. Please try again.'' \<rparr>,
      requests)"
  using assms by (simp add: handleHarmonize_def)

lemma handleHarmonize_success:
  assumes "truthy (displayImage s)" and "length (placedProducts s) \<noteq> 0"
    and "tryHarmonize env s = (Inr url, requests)"
  shows "handleHarmonize env s =
     (s\<lparr> previousState := Some \<lparr> displayImage_S = displayImage s,
                                 placedProducts_S = placedProducts s \<rparr>,
         isLoading := False, error := None,
         displayImage := Some url, placedProducts := [] \<rparr>,
      requests)"
  using assms by (simp add: handleHarmonize_def)

text \<open>
  Run without another event in between, the handlers are their two phases in sequence.
\<close>

lemma handleHarmonize_phases:
  "fst (handleHarmonize env s) =
     (if \<not> truthy (displayImage s) \<or> length (placedProducts s) = 0 then harmonizeStart s
      else harmonizeSettle (fst (tryHarmonize env s)) (harmonizeStart s))"
  by (cases "tryHarmonize env s"; cases "fst (tryHarmonize env s)")
     (auto simp add: handleHarmonize_def harmonizeStart_def harmonizeSettle_def)

lemma handleProductUpload_phases:
  "handleProductUpload service urls s =
     productUploadSettle (promiseAll (map (describeProduct service) urls))
       (productUploadStart s)"
  by (cases "promiseAll (map (describeProduct service) urls)")
     (simp_all add: handleProductUpload_def productUploadSettle_def productUploadStart_def)

text \<open>A response none of whose parts carries inline data makes the call throw.\<close>

lemma extractImage_no_image:
  assumes "\<forall>p \<in> set ps. inlineData p = None"
  shows "extractImage \<lparr> candidates = Some (\<lparr> content = Some \<lparr> parts = Some ps \<rparr> \<rparr> # cs) \<rparr>
     = Inl NoImageReturned"
proof -
  from assms have "List.find (\<lambda>p. inlineData p \<noteq> None) ps = None"
    by (simp add: find_None_iff)
  then show ?thesis
    by (simp add: extractImage_def findImagePart_def)
qed

lemma tryHarmonize_placing_text:
  "fst (tryHarmonize (envAnswering textResponse) placing) = Inl NoImageReturned"
  by (simp add: tryHarmonize_def buildComposite_def envAnswering_def placing_eq initialApp_def
        loadProductImage_def textResponse_def extractImage_def findImagePart_def Let_def)

lemma harmonized_eq:
  "harmonized =
     placing\<lparr> previousState := Some \<lparr> displayImage_S = Some roomUrl,
                                       placedProducts_S = placedProducts placing \<rparr>,
              isLoading := False, error := None,
              displayImage := Some ''data:image/png;base64,BBBB'', placedProducts := [] \<rparr>"
proof -
  have t: "truthy (displayImage placing)" "length (placedProducts placing) \<noteq> 0"
    by (simp_all add: placing_eq truthy_def roomUrl_def)
  have "fst (tryHarmonize (envAnswering imageResponse) placing)
      = Inr ''data:image/png;base64,BBBB''"
    by (simp add: tryHarmonize_def buildComposite_def envAnswering_def placing_eq
          initialApp_def loadProductImage_def imageResponse_def extractImage_def
          findImagePart_def Let_def template_def)
  then obtain requests where
    "tryHarmonize (envAnswering imageResponse) placing
       = (Inr ''data:image/png;base64,BBBB'', requests)"
    by (cases "tryHarmonize (envAnswering imageResponse) placing") auto
  from handleHarmonize_success [OF t this] show ?thesis
    by (simp add: harmonized_def placing_eq)
qed

text \<open>
  Whatever the state has become when the awaited promises settle, a failed call leaves
  its display image and placements alone, switches the loading indicator off and shows
  an error message.
\<close>

lemma harmonizeSettle_failure:
  "displayImage (harmonizeSettle (Inl t) s) = displayImage s
   \<and> placedProducts (harmonizeSettle (Inl t) s) = placedProducts s
   \<and> \<not> isLoading (harmonizeSettle (Inl t) s)
   \<and> error (harmonizeSettle (Inl t) s) \<noteq> None"
  by (simp add: harmonizeSettle_def)

text \<open>
  Claim C5. When a harmonize call fails, because it is refused or because something is
  thrown while the composite is built, the request is sent or the answer is read (an
  answer without an inline image part throws), then the display image and the
  placements are what they were before the call, the loading indicator is off and an
  error message is shown. The call is made while the Harmonize control is enabled, that
  is, while nothing is loading.
\<close>

theorem failed_harmonize_keeps_image_and_placements:
  assumes "\<not> truthy (displayImage s) \<or> length (placedProducts s) = 0
           \<or> isl (fst (tryHarmonize env s))"
    and "harmonizeEnabled s"
  shows "displayImage (fst (handleHarmonize env s)) = displayImage s
       \<and> placedProducts (fst (handleHarmonize env s)) = placedProducts s
       \<and> \<not> isLoading (fst (handleHarmonize env s))
       \<and> error (fst (handleHarmonize env s)) \<noteq> None"
proof (cases "\<not> truthy (displayImage s) \<or> length (placedProducts s) = 0")
  case True
  then show ?thesis
    using assms(2) by (simp add: handleHarmonize_rejected harmonizeEnabled_def)
next
  case False
  with assms(1) obtain t requests where "tryHarmonize env s = (Inl t, requests)"
    by (cases "tryHarmonize env s"; cases "fst (tryHarmonize env s)") auto
  with False show ?thesis
    by (simp add: handleHarmonize_thrown)
qed

theorem failed_harmonize_keeps_image_and_placements_witness:
  "isl (fst (tryHarmonize (envAnswering textResponse) placing)) \<and> harmonizeEnabled placing
   \<and> displayImage (fst (handleHarmonize (envAnswering textResponse) placing)) = Some roomUrl
   \<and> map id_P (placedProducts (fst (handleHarmonize (envAnswering textResponse) placing)))
       = [1000]
   \<and> \<not> isLoading (fst (handleHarmonize (envAnswering textResponse) placing))
   \<and> error (fst (handleHarmonize (envAnswering textResponse) placing)) \<noteq> None"
proof -
  have h1: "isl (fst (tryHarmonize (envAnswering textResponse) placing))"
    by (simp add: tryHarmonize_placing_text)
  have h2: "harmonizeEnabled placing"
    by (simp add: harmonizeEnabled_def placing_eq initialApp_def)
  have d: "displayImage placing = Some roomUrl"
    and p: "map id_P (placedProducts placing) = [1000]"
    by (simp_all add: placing_eq)
  from failed_harmonize_keeps_image_and_placements
         [of placing "envAnswering textResponse", OF disjI2 [OF disjI2 [OF h1]] h2]
       h1 h2 d p
  show ?thesis by simp
qed

text \<open>
  Claim C6. A harmonize call in a state without a display image or without a placement
  returns at once: it sends no request to the generation service, and the state it
  leaves differs from the state before only in the error message, which asks to add a
  product to the room first.
\<close>

theorem harmonize_without_placement_is_rejected:
  assumes "\<not> truthy (displayImage s) \<or> length (placedProducts s) = 0"
  shows "handleHarmonize env s =
     (s\<lparr> error := Some ''Please add a product to the room before harmonizing.'' \<rparr>, [])"
  using assms by (auto simp add: handleHarmonize_def)

theorem harmonize_without_placement_is_rejected_witness:
  "length (placedProducts roomOnly) = 0
   \<and> handleHarmonize (envAnswering imageResponse) roomOnly =
       (roomOnly\<lparr> error := Some ''Please add a product to the room before harmonizing.'' \<rparr>,
        [])
   \<and> displayImage (handleDrop (dropAt 100 100 1000) initialApp) = None
   \<and> snd (handleHarmonize (envAnswering imageResponse)
            (handleDrop (dropAt 100 100 1000) initialApp)) = []"
proof -
  have h: "length (placedProducts roomOnly) = 0"
    by (simp add: roomOnly_def handler_defs example_defs)
  have g: "displayImage (handleDrop (dropAt 100 100 1000) initialApp) = None"
    by (simp add: handler_defs example_defs)
  then have g': "\<not> truthy (displayImage (handleDrop (dropAt 100 100 1000) initialApp))"
    by (simp add: truthy_def)
  from harmonize_without_placement_is_rejected
         [of roomOnly "envAnswering imageResponse", OF disjI2 [OF h]]
       harmonize_without_placement_is_rejected
         [of "handleDrop (dropAt 100 100 1000) initialApp" "envAnswering imageResponse",
          OF disjI1 [OF g']]
       h g
  show ?thesis by simp
qed

section \<open>Undo and room upload\<close>

text \<open>
  Undo is offered after a harmonize call that succeeded while nothing else was loading,
  and it is not offered as soon as there is a placement.
\<close>

lemma undo_offered_after_harmonize:
  assumes "truthy (displayImage s)" and "length (placedProducts s) \<noteq> 0"
    and "tryHarmonize env s = (Inr url, requests)"
  shows "undoOffered (fst (handleHarmonize env s))"
  by (simp add: handleHarmonize_success [OF assms] undoOffered_def)

lemma undo_not_offered_with_placement:
  "placedProducts s \<noteq> [] \<Longrightarrow> \<not> undoOffered s"
  by (simp add: undoOffered_def)

text \<open>
  Claim C7. Undo is offered only in a state with a snapshot and without placements. In a
  state with a snapshot, undo puts the display image and the placements of the snapshot
  back, changes nothing else but the snapshot, which it clears, and leaves a state in
  which undo is not offered and a second undo changes nothing.
\<close>

theorem undo_restores_snapshot_once:
  "(undoOffered s \<longrightarrow> previousState s \<noteq> None \<and> length (placedProducts s) = 0)
   \<and> (\<forall>prev. previousState s = Some prev \<longrightarrow>
        handleUndo s = s\<lparr> displayImage := displayImage_S prev,
                          placedProducts := placedProducts_S prev,
                          previousState := None \<rparr>
        \<and> displayImage (handleUndo s) = displayImage_S prev
        \<and> placedProducts (handleUndo s) = placedProducts_S prev
        \<and> previousState (handleUndo s) = None
        \<and> \<not> undoOffered (handleUndo s)
        \<and> handleUndo (handleUndo s) = handleUndo s)"
  by (simp add: undoOffered_def handleUndo_def)

theorem undo_restores_snapshot_once_witness:
  "undoOffered harmonized
   \<and> previousState harmonized = Some \<lparr> displayImage_S = Some roomUrl,
                                       placedProducts_S = placedProducts placing \<rparr>
   \<and> length (placedProducts harmonized) = 0
   \<and> displayImage (handleUndo harmonized) = Some roomUrl
   \<and> placedProducts (handleUndo harmonized) = placedProducts placing
   \<and> \<not> undoOffered (handleUndo harmonized)"
proof -
  have h1: "undoOffered harmonized"
    by (simp add: harmonized_eq undoOffered_def placing_eq initialApp_def)
  have h2: "previousState harmonized = Some \<lparr> displayImage_S = Some roomUrl,
                                              placedProducts_S = placedProducts placing \<rparr>"
    by (simp add: harmonized_eq)
  note a = undo_restores_snapshot_once [of harmonized, THEN conjunct1, rule_format, OF h1]
  note r = undo_restores_snapshot_once
             [of harmonized, THEN conjunct2, rule_format, OF h2, THEN conjunct2]
  from a r h1 h2 show ?thesis by simp
qed

text \<open>
  Claim C10. Loading a room clears the placements and makes the new image the original
  and the displayed one; the snapshot, the error message and the selection stay as they
  were. So when undo is offered before a room is loaded it is offered after; and when
  there is a snapshot and nothing is loading, undo is offered after the room is loaded
  and puts back the display image and the placements of the snapshot, which are those
  of the room before.
\<close>

theorem handleRoomUpload_keeps_snapshot:
  "placedProducts (handleRoomUpload urls s) = []
   \<and> originalRoomImage (handleRoomUpload urls s) = first_url urls
   \<and> displayImage (handleRoomUpload urls s) = first_url urls
   \<and> previousState (handleRoomUpload urls s) = previousState s
   \<and> error (handleRoomUpload urls s) = error s
   \<and> selectedProductId (handleRoomUpload urls s) = selectedProductId s
   \<and> (undoOffered s \<longrightarrow> undoOffered (handleRoomUpload urls s))
   \<and> (\<forall>prev. previousState s = Some prev \<and> \<not> isLoading s \<longrightarrow>
        undoOffered (handleRoomUpload urls s)
        \<and> displayImage (handleUndo (handleRoomUpload urls s)) = displayImage_S prev
        \<and> placedProducts (handleUndo (handleRoomUpload urls s)) = placedProducts_S prev)"
  by (simp add: handleRoomUpload_def undoOffered_def handleUndo_def)

theorem handleRoomUpload_keeps_snapshot_witness:
  "previousState harmonized = Some \<lparr> displayImage_S = Some roomUrl,
                                     placedProducts_S = placedProducts placing \<rparr>
   \<and> undoOffered harmonized
   \<and> displayImage (handleRoomUpload [''data:image/png;base64,OTHER''] harmonized)
       = Some ''data:image/png;base64,OTHER''
   \<and> undoOffered (handleRoomUpload [''data:image/png;base64,OTHER''] harmonized)
   \<and> displayImage (handleUndo (handleRoomUpload [''data:image/png;base64,OTHER''] harmonized))
       = Some roomUrl
   \<and> map id_P (placedProducts
        (handleUndo (handleRoomUpload [''data:image/png;base64,OTHER''] harmonized)))
       = [1000]"
proof -
  have h1: "undoOffered harmonized"
    by (simp add: harmonized_eq undoOffered_def placing_eq initialApp_def)
  have h2: "previousState harmonized = Some \<lparr> displayImage_S = Some roomUrl,
                                              placedProducts_S = placedProducts placing \<rparr>"
    by (simp add: harmonized_eq)
  have h3: "\<not> isLoading harmonized"
    using h1 by (simp add: undoOffered_def)
  have p: "map id_P (placedProducts placing) = [1000]"
    by (simp add: placing_eq)
  from handleRoomUpload_keeps_snapshot [of "[''data:image/png;base64,OTHER'']" harmonized]
       h1 h2 h3 p
  show ?thesis by (simp add: first_url_def)
qed

end
